theory Spec2Isabelle
  imports Main "HOL-Library.Char_ord" "HOL-Library.List_Lexorder" "HOL-Library.Product_Lexorder"
begin

section \<open>HTTP responses\<close>

text \<open>
  Every response of the router is a status code and a JSON body. The bodies are modelled
  field by field; the \<^verbatim>\<open>timestamp\<close> field that every body carries
  (\<^verbatim>\<open>new Date().toISOString()\<close>) is left out, since no behaviour depends on it.
  Characters are bytes, strings are byte lists.
\<close>

record detail =
  field :: string
  message :: string
  val :: "string option"

section \<open>Rate limiter (middleware/validation.js, rateLimit)\<close>

text \<open>
  \<^verbatim>\<open>rateLimitStore\<close> is a \<^verbatim>\<open>Map\<close> from the client address to the array of the
  timestamps (milliseconds, \<^verbatim>\<open>Date.now()\<close>) of its accepted requests.
  The client address (\<^verbatim>\<open>req.ip || req.connection.remoteAddress\<close>) and the time of the
  call are arguments of the model.
\<close>

type_synonym rateLimitStore = "string \<rightharpoonup> int list"

record rateLimitOptions =
  windowMs :: int
  maxRequests :: nat
  rl_message :: string

record rateLimitBody =
  rl_error :: string
  retryAfter :: int

text \<open>\<^verbatim>\<open>Math.ceil(windowMs / 1000)\<close> on an integer number of milliseconds.\<close>

definition ceil_div_1000 :: "int \<Rightarrow> int" where
  "ceil_div_1000 w = - ((- w) div 1000)"

text \<open>
  One call of the middleware for client \<open>clientIP\<close> at time \<open>now\<close>. The result is
  \<open>Some body\<close> when the middleware answers 429 itself and \<open>None\<close> when it calls
  \<^verbatim>\<open>next()\<close>, together with the store after the call.
\<close>

definition rateLimit ::
  "rateLimitOptions \<Rightarrow> int \<Rightarrow> string \<Rightarrow> rateLimitStore \<Rightarrow> rateLimitBody option \<times> rateLimitStore" where
  "rateLimit options now clientIP store =
     (let windowStart = now - windowMs options;
          clientRequests = (case store clientIP of None \<Rightarrow> [] | Some ts \<Rightarrow> ts);
          validRequests = filter (\<lambda>timestamp. timestamp > windowStart) clientRequests
      in if length validRequests \<ge> maxRequests options
         then (Some \<lparr>rl_error = rl_message options,
                      retryAfter = ceil_div_1000 (windowMs options)\<rparr>, store)
         else (None, store(clientIP \<mapsto> validRequests @ [now])))"

text \<open>The options the representatives router installs (routes/representatives.js, line 7).\<close>

definition router_options :: rateLimitOptions where
  "router_options =
     \<lparr>windowMs = 15 * 60 * 1000, maxRequests = 100,
      rl_message = ''Too many requests to representatives API, please try again later''\<rparr>"

text \<open>
  A run of calls of one client, at the given times in order. It returns the store after
  the last call when every call was accepted, and \<open>None\<close> as soon as one is rejected.
\<close>

fun accepted_calls ::
  "rateLimitOptions \<Rightarrow> int list \<Rightarrow> string \<Rightarrow> rateLimitStore \<Rightarrow> rateLimitStore option" where
  "accepted_calls options [] clientIP store = Some store"
| "accepted_calls options (t # ts) clientIP store =
     (case rateLimit options t clientIP store of
        (None, store') \<Rightarrow> accepted_calls options ts clientIP store'
      | (Some _, _) \<Rightarrow> None)"

definition stored :: "rateLimitStore \<Rightarrow> string \<Rightarrow> int list" where
  "stored store clientIP = (case store clientIP of None \<Rightarrow> [] | Some ts \<Rightarrow> ts)"

section \<open>JavaScript helpers\<close>

text \<open>
  Query-string values and path parameters are strings; a parameter that is absent is
  \<^verbatim>\<open>undefined\<close>, modelled as \<open>None\<close>. Repeated parameters (arrays) and nested ones
  (objects) are outside the model.
\<close>

type_synonym query = "string \<rightharpoonup> string"

text \<open>Truthiness of a value that is a string or \<^verbatim>\<open>undefined\<close>/\<^verbatim>\<open>null\<close>.\<close>

definition truthy :: "string option \<Rightarrow> bool" where
  "truthy v = (case v of None \<Rightarrow> False | Some s \<Rightarrow> s \<noteq> [])"

text \<open>\<^verbatim>\<open>v || null\<close> on such a value.\<close>

definition or_null :: "string option \<Rightarrow> string option" where
  "or_null v = (if truthy v then v else None)"

definition is_whitespace :: "char \<Rightarrow> bool" where
  "is_whitespace c = (of_char c \<in> {9, 10, 11, 12, 13, 32 :: nat})"

definition is_digit :: "char \<Rightarrow> bool" where
  "is_digit c = (CHR ''0'' \<le> c \<and> c \<le> CHR ''9'')"

definition toLowerChar :: "char \<Rightarrow> char" where
  "toLowerChar c = (if CHR ''A'' \<le> c \<and> c \<le> CHR ''Z'' then char_of (of_char c + (32::nat)) else c)"

definition toUpperChar :: "char \<Rightarrow> char" where
  "toUpperChar c = (if CHR ''a'' \<le> c \<and> c \<le> CHR ''z'' then char_of (of_char c - (32::nat)) else c)"

text \<open>\<^verbatim>\<open>String.prototype.toUpperCase\<close>, on ASCII letters.\<close>

definition toUpperCase :: "string \<Rightarrow> string" where
  "toUpperCase s = map toUpperChar s"

definition digit_value :: "char \<Rightarrow> nat option" where
  "digit_value c =
     (if CHR ''0'' \<le> c \<and> c \<le> CHR ''9'' then Some (of_char c - 48)
      else if CHR ''a'' \<le> c \<and> c \<le> CHR ''z'' then Some (of_char c - 87)
      else if CHR ''A'' \<le> c \<and> c \<le> CHR ''Z'' then Some (of_char c - 55)
      else None)"

text \<open>The longest prefix of the string that consists of digits of radix \<open>R\<close>.\<close>

fun digits_prefix :: "nat \<Rightarrow> string \<Rightarrow> nat list" where
  "digits_prefix R [] = []"
| "digits_prefix R (c # cs) =
     (case digit_value c of
        None \<Rightarrow> []
      | Some d \<Rightarrow> if d < R then d # digits_prefix R cs else [])"

text \<open>
  \<^verbatim>\<open>parseInt(string)\<close> without a radix: leading white space is skipped, a sign is read,
  a \<^verbatim>\<open>0x\<close> prefix selects radix 16, and the longest prefix of digits is converted;
  the rest of the string is ignored. \<open>None\<close> is \<^verbatim>\<open>NaN\<close>. The result is the
  mathematical integer (the rounding of doubles beyond \<open>2^53\<close> is not modelled), and
  the white space skipped is the ASCII white space (U+00A0 and the other Unicode spaces,
  which JavaScript skips too, are not modelled).
\<close>

definition parseInt :: "string \<Rightarrow> int option" where
  "parseInt inputString =
     (let S = dropWhile is_whitespace inputString;
          sign = (case S of c # _ \<Rightarrow> if c = CHR ''-'' then - 1 else 1 | [] \<Rightarrow> (1::int));
          S1 = (case S of c # cs \<Rightarrow> if c = CHR ''-'' \<or> c = CHR ''+'' then cs else S | [] \<Rightarrow> S);
          hex = (take 2 S1 = ''0x'' \<or> take 2 S1 = ''0X'');
          R = (if hex then 16 else 10);
          S2 = (if hex then drop 2 S1 else S1);
          Z = digits_prefix R S2
      in if Z = [] then None else Some (sign * int (foldl (\<lambda>a d. a * R + d) 0 Z)))"

section \<open>Storage (database/schema.sql, models/database.js)\<close>

text \<open>
  The three tables of the schema, a row per record. \<^verbatim>\<open>branch\<close> and
  \<^verbatim>\<open>jurisdiction_level\<close> carry a CHECK constraint that admits the three values only, and
  so are a datatype; nullable columns are options. The columns \<^verbatim>\<open>created_at\<close> and
  \<^verbatim>\<open>updated_at\<close> are left out.
\<close>

datatype branch = Federal | State | Local

fun branch_name :: "branch \<Rightarrow> string" where
  "branch_name Federal = ''federal''"
| "branch_name State = ''state''"
| "branch_name Local = ''local''"

record geography =
  g_id :: int
  g_zip_code :: string
  g_city :: "string option"
  g_state :: string
  g_state_name :: "string option"
  g_county :: "string option"
  g_congressional_district :: "string option"
  g_latitude :: "string option"
  g_longitude :: "string option"

record representative =
  r_id :: int
  r_name :: string
  r_title :: string
  r_party :: "string option"
  r_branch :: branch
  r_office_type :: "string option"
  r_phone :: "string option"
  r_email :: "string option"
  r_website :: "string option"
  r_photo_url :: "string option"
  r_address_line1 :: "string option"
  r_address_line2 :: "string option"
  r_address_city :: "string option"
  r_address_state :: "string option"
  r_address_zip :: "string option"
  r_term_start :: "string option"
  r_term_end :: "string option"
  r_is_active :: "bool option"

record rep_geography_map =
  m_id :: int
  m_representative_id :: int
  m_geography_id :: int
  m_jurisdiction_level :: branch

text \<open>
  The database: the rows of the three tables, whether the pool can run a query at all
  (\<^verbatim>\<open>db.query\<close> rethrows every failure of \<^verbatim>\<open>pool.query\<close>; the handlers catch it),
  and its collation. The schema declares \<^verbatim>\<open>name VARCHAR(200)\<close> without a
  \<^verbatim>\<open>COLLATE\<close> clause, so \<^verbatim>\<open>ORDER BY r.name\<close> follows the collation the database was
  created with. A collation is given by its sort key (what \<^verbatim>\<open>strxfrm\<close> computes): one
  string sorts before another when its key is the smaller byte string. The key of the C
  collation is the string itself.
\<close>

record database =
  geography :: "geography list"
  representatives :: "representative list"
  rep_geography_maps :: "rep_geography_map list"
  available :: bool
  collation_key :: "string \<Rightarrow> string"

datatype db_error = QueryError

definition db_query :: "database \<Rightarrow> db_error + 'a \<Rightarrow> db_error + 'a" where
  "db_query db result = (if available db then result else Inl QueryError)"

text \<open>The statements the handlers send, with their parameters: the log of storage accesses.\<close>

datatype sql =
    GeoQuery "string option"
  | RepQuery int bool "string option"
  | DetailQuery int
  | SearchQuery "string option" "string option" "string option" "string option"
      "int option" "int option"

subsection \<open>The queries\<close>

text \<open>
  \<^verbatim>\<open>SELECT ... FROM geography WHERE zip_code = $1\<close>. An \<^verbatim>\<open>undefined\<close> parameter is
  sent as NULL, and nothing equals NULL.
\<close>

definition geoQuery :: "database \<Rightarrow> string option \<Rightarrow> db_error + geography list" where
  "geoQuery db zipcode =
     Inr (case zipcode of None \<Rightarrow> [] | Some z \<Rightarrow> filter (\<lambda>g. g_zip_code g = z) (geography db))"

text \<open>The \<^verbatim>\<open>CASE r.branch WHEN ... END\<close> of the ORDER BY clause.\<close>

fun branch_priority :: "branch \<Rightarrow> nat" where
  "branch_priority Federal = 1"
| "branch_priority State = 2"
| "branch_priority Local = 3"

text \<open>
  The representatives query: the inner join of representatives with the mapping rows
  of one geography, the two optional conditions, and the ORDER BY. A row is a
  representative with the \<^verbatim>\<open>jurisdiction_level\<close> of its mapping row. Names are compared
  in the collation of the database; rows with equal keys keep the order of the join.
\<close>

definition repQuery ::
  "database \<Rightarrow> int \<Rightarrow> bool \<Rightarrow> string option \<Rightarrow> db_error + (representative \<times> branch) list" where
  "repQuery db geography_id active_only branch =
     Inr (sort_key (\<lambda>(r, j). (branch_priority (r_branch r), collation_key db (r_name r)))
       (filter (\<lambda>(r, j). (active_only \<longrightarrow> r_is_active r = Some True)
                       \<and> (case branch of None \<Rightarrow> True | Some b \<Rightarrow> branch_name (r_branch r) = b))
         (concat (map (\<lambda>r. map (\<lambda>m. (r, m_jurisdiction_level m))
                           (filter (\<lambda>m. r_id r = m_representative_id m
                                      \<and> m_geography_id m = geography_id)
                              (rep_geography_maps db)))
                   (representatives db)))))"

text \<open>
  \<^verbatim>\<open>FROM representatives r LEFT JOIN rep_geography_map rgm ON ... LEFT JOIN geography g ON ...\<close>
  for one representative: a row per mapping (with its geography, if any), or one row of
  NULLs when the representative has no mapping.
\<close>

definition left_joins ::
  "database \<Rightarrow> representative \<Rightarrow> (rep_geography_map option \<times> geography option) list" where
  "left_joins db r =
     (case filter (\<lambda>m. r_id r = m_representative_id m) (rep_geography_maps db) of
        [] \<Rightarrow> [(None, None)]
      | ms \<Rightarrow> concat (map (\<lambda>m.
                 (case filter (\<lambda>g. m_geography_id m = g_id g) (geography db) of
                    [] \<Rightarrow> [(Some m, None)]
                  | gs \<Rightarrow> map (\<lambda>g. (Some m, Some g)) gs)) ms))"

record area =
  a_zip_code :: "string option"
  a_city :: "string option"
  a_state :: "string option"
  a_congressional_district :: "string option"

text \<open>\<^verbatim>\<open>json_build_object('zip_code', g.zip_code, ...)\<close> for a joined geography or NULLs.\<close>

definition area_of :: "geography option \<Rightarrow> area" where
  "area_of g =
     (case g of
        None \<Rightarrow> \<lparr>a_zip_code = None, a_city = None, a_state = None,
                  a_congressional_district = None\<rparr>
      | Some g' \<Rightarrow> \<lparr>a_zip_code = Some (g_zip_code g'), a_city = g_city g',
                    a_state = Some (g_state g'),
                    a_congressional_district = g_congressional_district g'\<rparr>)"

text \<open>The range of the \<^verbatim>\<open>INTEGER\<close> column a parameter is compared with.\<close>

definition int4 :: "int \<Rightarrow> bool" where
  "int4 n = (- 2147483648 \<le> n \<and> n \<le> 2147483647)"

text \<open>The range of the \<^verbatim>\<open>bigint\<close> that LIMIT and OFFSET take, which must not be negative.\<close>

definition row_count_ok :: "int \<Rightarrow> bool" where
  "row_count_ok n = (0 \<le> n \<and> n \<le> 9223372036854775807)"

text \<open>
  The detail query: the representative with the given id, with the \<^verbatim>\<open>array_agg\<close> of
  its joined areas (\<^verbatim>\<open>GROUP BY r.id\<close>).
\<close>

definition detailQuery ::
  "database \<Rightarrow> int \<Rightarrow> db_error + (representative \<times> area list) list" where
  "detailQuery db n =
     (if int4 n
      then Inr (map (\<lambda>r. (r, map (\<lambda>(m, g). area_of g) (left_joins db r)))
                  (filter (\<lambda>r. r_id r = n) (representatives db)))
      else Inl QueryError)"

text \<open>
  \<^verbatim>\<open>subject ILIKE pattern\<close>: \<^verbatim>\<open>%\<close> matches any sequence, \<^verbatim>\<open>_\<close> any one
  character, a backslash takes the next pattern character literally, and letters match
  without regard to (ASCII) case. The patterns the search builds end in \<^verbatim>\<open>%\<close>, so a
  pattern never ends in an unescaped backslash, which PostgreSQL would refuse.
\<close>

fun like_match :: "string \<Rightarrow> string \<Rightarrow> bool" where
  "like_match [] s = (s = [])"
| "like_match (p # ps) s =
     (if p = CHR ''%'' then
        (like_match ps s \<or> (case s of [] \<Rightarrow> False | _ # t \<Rightarrow> like_match (p # ps) t))
      else if p = CHR ''_'' then
        (case s of [] \<Rightarrow> False | _ # t \<Rightarrow> like_match ps t)
      else if p = CHR 0x5C then
        (case ps of
           [] \<Rightarrow> False
         | e # ps' \<Rightarrow>
             (case s of [] \<Rightarrow> False | c # t \<Rightarrow> toLowerChar c = toLowerChar e \<and> like_match ps' t))
      else
        (case s of [] \<Rightarrow> False | c # t \<Rightarrow> toLowerChar c = toLowerChar p \<and> like_match ps t))"

definition ilike :: "string \<Rightarrow> string \<Rightarrow> bool" where
  "ilike subject pattern = like_match pattern subject"

text \<open>A row of the search query after projection: ten columns and the window count.\<close>

record search_row =
  sr_id :: int
  sr_name :: string
  sr_title :: string
  sr_party :: "string option"
  sr_branch :: branch
  sr_office_type :: "string option"
  sr_phone :: "string option"
  sr_email :: "string option"
  sr_website :: "string option"
  sr_is_active :: "bool option"
  sr_total_count :: nat

definition search_select :: "nat \<Rightarrow> representative \<Rightarrow> search_row" where
  "search_select total_count r =
     \<lparr>sr_id = r_id r, sr_name = r_name r, sr_title = r_title r, sr_party = r_party r,
      sr_branch = r_branch r, sr_office_type = r_office_type r, sr_phone = r_phone r,
      sr_email = r_email r, sr_website = r_website r, sr_is_active = r_is_active r,
      sr_total_count = total_count\<rparr>"

text \<open>The WHERE clause of the search, on a joined row; a comparison with NULL is not true.\<close>

definition search_where ::
  "string option \<Rightarrow> string option \<Rightarrow> string option \<Rightarrow> string option \<Rightarrow>
   representative \<times> rep_geography_map option \<times> geography option \<Rightarrow> bool" where
  "search_where name party branch state row =
     (case row of (r, m, g) \<Rightarrow>
        r_is_active r = Some True
      \<and> (case name of None \<Rightarrow> True | Some n \<Rightarrow> ilike (r_name r) (''%'' @ n @ ''%''))
      \<and> (case party of None \<Rightarrow> True
         | Some p \<Rightarrow> (case r_party r of None \<Rightarrow> False | Some rp \<Rightarrow> ilike rp (''%'' @ p @ ''%'')))
      \<and> (case branch of None \<Rightarrow> True | Some b \<Rightarrow> branch_name (r_branch r) = b)
      \<and> (case state of None \<Rightarrow> True
         | Some s \<Rightarrow> (case g of None \<Rightarrow> False | Some g' \<Rightarrow> g_state g' = s)))"

text \<open>The rows of the two left joins over all representatives that pass the WHERE clause.\<close>

definition search_matches ::
  "database \<Rightarrow> string option \<Rightarrow> string option \<Rightarrow> string option \<Rightarrow> string option \<Rightarrow>
   (representative \<times> rep_geography_map option \<times> geography option) list" where
  "search_matches db name party branch state =
     filter (search_where name party branch state)
       (concat (map (\<lambda>r. map (\<lambda>(m, g). (r, m, g)) (left_joins db r)) (representatives db)))"

text \<open>
  The search query, in SQL's order of evaluation: joins, WHERE, the window function
  \<^verbatim>\<open>COUNT(*) OVER()\<close> over the rows that passed WHERE, the SELECT list, DISTINCT,
  ORDER BY, then OFFSET and LIMIT. A parameter that is \<^verbatim>\<open>NaN\<close>, negative or out of
  range makes the statement fail.
\<close>

definition searchQuery ::
  "database \<Rightarrow> string option \<Rightarrow> string option \<Rightarrow> string option \<Rightarrow> string option \<Rightarrow>
   int option \<Rightarrow> int option \<Rightarrow> db_error + search_row list" where
  "searchQuery db name party branch state limit offset =
     (let matches = search_matches db name party branch state;
          total_count = length matches;
          selected = map (\<lambda>(r, m, g). search_select total_count r) matches;
          ordered = sort_key (\<lambda>row. collation_key db (sr_name row)) (remdups selected)
      in case (limit, offset) of
           (Some l, Some f) \<Rightarrow>
             if row_count_ok l \<and> row_count_ok f
             then Inr (take (nat l) (drop (nat f) ordered))
             else Inl QueryError
         | _ \<Rightarrow> Inl QueryError)"

section \<open>Response bodies\<close>

record contact =
  c_phone :: "string option"
  c_email :: "string option"
  c_website :: "string option"

record address =
  line1 :: "string option"
  line2 :: "string option"
  a_city_line :: "string option"
  a_state_line :: "string option"
  a_zip_line :: "string option"

record "term" =
  t_start :: "string option"
  t_end :: "string option"

record representative_view =
  v_id :: int
  v_name :: string
  v_title :: string
  v_party :: "string option"
  v_branch :: branch
  v_office_type :: "string option"
  v_contact :: contact
  v_address :: "address option"
  v_photo_url :: "string option"
  v_term :: "term"
  v_is_active :: "bool option"
  v_jurisdiction_level :: branch

text \<open>The coordinates as the driver delivers the DECIMAL columns; \<^verbatim>\<open>parseFloat\<close> is not applied.\<close>

record coordinates =
  latitude :: string
  longitude :: string

record location =
  l_city :: "string option"
  l_state :: string
  l_state_name :: "string option"
  l_county :: "string option"
  l_congressional_district :: "string option"
  l_coordinates :: "coordinates option"

record zip_response =
  z_zip :: string
  z_location :: location
  z_count :: nat
  by_branch_federal :: "representative_view list"
  by_branch_state :: "representative_view list"
  by_branch_local :: "representative_view list"
  z_all :: "representative_view list"
  meta_include_inactive :: bool
  meta_branch_filter :: string

record detail_response =
  d_id :: int
  d_name :: string
  d_title :: string
  d_party :: "string option"
  d_branch :: branch
  d_office_type :: "string option"
  d_contact :: contact
  d_address :: "address option"
  d_photo_url :: "string option"
  d_term :: "term"
  d_is_active :: "bool option"
  served_areas :: "area list"

record search_result =
  s_id :: int
  s_name :: string
  s_title :: string
  s_party :: "string option"
  s_branch :: branch
  s_office_type :: "string option"
  s_contact :: contact
  s_is_active :: "bool option"

record pagination =
  p_total :: nat
  p_limit :: "int option"
  p_offset :: "int option"
  has_more :: bool

record search_criteria =
  sc_name :: "string option"
  sc_party :: "string option"
  sc_branch :: "string option"
  sc_state :: "string option"

record search_response =
  results :: "search_result list"
  pagination :: pagination
  search_criteria :: search_criteria

text \<open>
  \<open>ErrorBody error message suggestion\<close> is the body
  \<^verbatim>\<open>{error, message, suggestion}\<close> of the error answers of the handlers.
\<close>

datatype body =
    ErrorBody string "string option" "string option"
  | ValidationBody "detail list"
  | RateLimitBody rateLimitBody
  | ZipBody zip_response
  | DetailBody detail_response
  | SearchBody search_response
  | RouteNotFoundBody

record response =
  status :: nat
  body :: body

section \<open>Validation middleware (middleware/validation.js, createValidator)\<close>

text \<open>
  The schema \<^verbatim>\<open>zipQuery\<close>, validated with \<^verbatim>\<open>stripUnknown: true\<close>: its only key is
  \<^verbatim>\<open>zip\<close>, a required string that matches \<^verbatim>\<open>/^\d{5}$/\<close>. The validated value holds
  the keys of the schema and no others.
\<close>

definition zipQuery :: "query \<Rightarrow> detail list + query" where
  "zipQuery q =
     (case q ''zip'' of
        None \<Rightarrow> Inl [\<lparr>field = ''zip'', message = ''ZIP code is required'', val = None\<rparr>]
      | Some z \<Rightarrow>
          if z = [] then
            Inl [\<lparr>field = ''zip'',
                  message = CHR 0x22 # ''zip'' @ CHR 0x22 # '' is not allowed to be empty'',
                  val = Some z\<rparr>]
          else if length z = 5 \<and> list_all is_digit z then Inr [''zip'' \<mapsto> z]
          else Inl [\<lparr>field = ''zip'', message = ''ZIP code must be exactly 5 digits'',
                     val = Some z\<rparr>])"

text \<open>
  \<^verbatim>\<open>createValidator(schemaName, 'query')\<close>, given the schema found under the name
  (\<open>None\<close> when there is none). \<open>Inl\<close> is the response the middleware sends itself;
  \<open>Inr\<close> is the value that replaces \<^verbatim>\<open>req.query\<close> before \<^verbatim>\<open>next()\<close>.
\<close>

definition createValidator ::
  "(query \<Rightarrow> detail list + query) option \<Rightarrow> query \<Rightarrow> response + query" where
  "createValidator schema dataToValidate =
     (case schema of
        None \<Rightarrow>
          Inl \<lparr>status = 500,
               body = ErrorBody ''Internal server error - invalid validation schema'' None None\<rparr>
      | Some validate \<Rightarrow>
          (case validate dataToValidate of
             Inl errorDetails \<Rightarrow> Inl \<lparr>status = 422, body = ValidationBody errorDetails\<rparr>
           | Inr v \<Rightarrow> Inr v))"

section \<open>Route handlers (routes/representatives.js)\<close>

definition format_address :: "representative \<Rightarrow> address option" where
  "format_address rep =
     (if truthy (r_address_line1 rep)
      then Some \<lparr>line1 = r_address_line1 rep, line2 = r_address_line2 rep,
                 a_city_line = r_address_city rep, a_state_line = r_address_state rep,
                 a_zip_line = r_address_zip rep\<rparr>
      else None)"

definition format_contact :: "representative \<Rightarrow> contact" where
  "format_contact rep =
     \<lparr>c_phone = r_phone rep, c_email = r_email rep, c_website = r_website rep\<rparr>"

definition format_rep :: "representative \<times> branch \<Rightarrow> representative_view" where
  "format_rep row =
     (case row of (rep, jurisdiction_level) \<Rightarrow>
        \<lparr>v_id = r_id rep, v_name = r_name rep, v_title = r_title rep, v_party = r_party rep,
         v_branch = r_branch rep, v_office_type = r_office_type rep,
         v_contact = format_contact rep, v_address = format_address rep,
         v_photo_url = r_photo_url rep,
         v_term = \<lparr>t_start = r_term_start rep, t_end = r_term_end rep\<rparr>,
         v_is_active = r_is_active rep, v_jurisdiction_level = jurisdiction_level\<rparr>)"

definition format_location :: "geography \<Rightarrow> location" where
  "format_location g =
     \<lparr>l_city = g_city g, l_state = g_state g, l_state_name = g_state_name g,
      l_county = g_county g, l_congressional_district = g_congressional_district g,
      l_coordinates =
        (case (g_latitude g, g_longitude g) of
           (Some la, Some lo) \<Rightarrow>
             if la \<noteq> [] \<and> lo \<noteq> [] then Some \<lparr>latitude = la, longitude = lo\<rparr> else None
         | _ \<Rightarrow> None)\<rparr>"

definition internal_error :: "string \<Rightarrow> response" where
  "internal_error msg = \<lparr>status = 500, body = ErrorBody ''Internal server error'' (Some msg) None\<rparr>"

text \<open>\<^verbatim>\<open>`${zip}`\<close> in a template literal.\<close>

definition template :: "string option \<Rightarrow> string" where
  "template v = (case v of None \<Rightarrow> ''undefined'' | Some s \<Rightarrow> s)"

text \<open>
  The handler of \<^verbatim>\<open>GET /\<close>, on the query it receives. The result is the response and
  the statements sent to the database, in order.
\<close>

definition zip_handler :: "database \<Rightarrow> query \<Rightarrow> response \<times> sql list" where
  "zip_handler db q =
     (let zipcode = q ''zip'';
          include_inactive = (case q ''include_inactive'' of None \<Rightarrow> ''false'' | Some v \<Rightarrow> v);
          branch = q ''branch''
      in case db_query db (geoQuery db zipcode) of
           Inl _ \<Rightarrow> (internal_error ''Unable to fetch representatives data'', [GeoQuery zipcode])
         | Inr [] \<Rightarrow>
             (\<lparr>status = 404,
               body = ErrorBody ''ZIP code not found''
                        (Some (''No data available for ZIP code '' @ template zipcode))
                        (Some ''Please verify the ZIP code or try a nearby area'')\<rparr>,
              [GeoQuery zipcode])
         | Inr (geo # _) \<Rightarrow>
             (let active_only = (include_inactive \<noteq> ''true'');
                  branch_param = (if truthy branch then branch else None);
                  log = [GeoQuery zipcode, RepQuery (g_id geo) active_only branch_param]
              in case db_query db (repQuery db (g_id geo) active_only branch_param) of
                   Inl _ \<Rightarrow> (internal_error ''Unable to fetch representatives data'', log)
                 | Inr rows \<Rightarrow>
                     (let reps = map format_rep rows
                      in (\<lparr>status = 200,
                           body = ZipBody
                             \<lparr>z_zip = g_zip_code geo,
                              z_location = format_location geo,
                              z_count = length reps,
                              by_branch_federal = filter (\<lambda>rep. v_branch rep = Federal) reps,
                              by_branch_state = filter (\<lambda>rep. v_branch rep = State) reps,
                              by_branch_local = filter (\<lambda>rep. v_branch rep = Local) reps,
                              z_all = reps,
                              meta_include_inactive = (include_inactive = ''true''),
                              meta_branch_filter =
                                (case branch_param of None \<Rightarrow> ''all'' | Some b \<Rightarrow> b)\<rparr>\<rparr>,
                          log))))"

text \<open>The route \<^verbatim>\<open>GET /\<close>: the validator of \<^verbatim>\<open>zipQuery\<close> on the query, then the handler.\<close>

definition zip_route :: "database \<Rightarrow> query \<Rightarrow> response \<times> sql list" where
  "zip_route db q =
     (case createValidator (Some zipQuery) q of
        Inl res \<Rightarrow> (res, [])
      | Inr q' \<Rightarrow> zip_handler db q')"

text \<open>The handler of \<^verbatim>\<open>GET /:id\<close>, on the path parameter.\<close>

definition detail_handler :: "database \<Rightarrow> string \<Rightarrow> response \<times> sql list" where
  "detail_handler db ident =
     (case (if ident = [] then None else parseInt ident) of
        None \<Rightarrow>
          (\<lparr>status = 400,
            body = ErrorBody ''Invalid representative ID''
                     (Some ''Representative ID must be a valid number'') None\<rparr>, [])
      | Some n \<Rightarrow>
          (case db_query db (detailQuery db n) of
             Inl _ \<Rightarrow> (internal_error ''Unable to fetch representative details'', [DetailQuery n])
           | Inr [] \<Rightarrow>
               (\<lparr>status = 404,
                 body = ErrorBody ''Representative not found''
                          (Some (''No representative found with ID '' @ ident)) None\<rparr>,
                [DetailQuery n])
           | Inr ((rep, areas) # _) \<Rightarrow>
               (\<lparr>status = 200,
                 body = DetailBody
                   \<lparr>d_id = r_id rep, d_name = r_name rep, d_title = r_title rep,
                    d_party = r_party rep, d_branch = r_branch rep,
                    d_office_type = r_office_type rep, d_contact = format_contact rep,
                    d_address = format_address rep, d_photo_url = r_photo_url rep,
                    d_term = \<lparr>t_start = r_term_start rep, t_end = r_term_end rep\<rparr>,
                    d_is_active = r_is_active rep,
                    served_areas = filter (\<lambda>area. a_zip_code area \<noteq> None) areas\<rparr>\<rparr>,
                [DetailQuery n])))"

definition format_search_row :: "search_row \<Rightarrow> search_result" where
  "format_search_row rep =
     \<lparr>s_id = sr_id rep, s_name = sr_name rep, s_title = sr_title rep, s_party = sr_party rep,
      s_branch = sr_branch rep, s_office_type = sr_office_type rep,
      s_contact = \<lparr>c_phone = sr_phone rep, c_email = sr_email rep, c_website = sr_website rep\<rparr>,
      s_is_active = sr_is_active rep\<rparr>"

text \<open>
  The handler of \<^verbatim>\<open>GET /search\<close>, on the query it receives. \<^verbatim>\<open>limit\<close> and
  \<^verbatim>\<open>offset\<close> default to the numbers 20 and 0 when absent.
\<close>

definition search_handler :: "database \<Rightarrow> query \<Rightarrow> response \<times> sql list" where
  "search_handler db q =
     (let name = q ''name''; party = q ''party''; branch = q ''branch''; state = q ''state'';
          limit = (case q ''limit'' of None \<Rightarrow> Some 20 | Some v \<Rightarrow> parseInt v);
          offset = (case q ''offset'' of None \<Rightarrow> Some 0 | Some v \<Rightarrow> parseInt v)
      in if \<not> truthy name \<and> \<not> truthy party \<and> \<not> truthy branch \<and> \<not> truthy state then
           (\<lparr>status = 400,
             body = ErrorBody ''Search criteria required''
                      (Some ''Please provide at least one search parameter (name, party, branch, or state)'')
                      None\<rparr>, [])
         else
           (let state_param = map_option toUpperCase (or_null state);
                log = [SearchQuery (or_null name) (or_null party) (or_null branch) state_param
                         limit offset]
            in case db_query db (searchQuery db (or_null name) (or_null party) (or_null branch)
                                   state_param limit offset) of
                 Inl _ \<Rightarrow> (internal_error ''Unable to perform search'', log)
               | Inr rows \<Rightarrow>
                   (\<lparr>status = 200,
                     body = SearchBody
                       \<lparr>results = map format_search_row rows,
                        pagination =
                          \<lparr>p_total = (case rows of [] \<Rightarrow> 0 | row # _ \<Rightarrow> sr_total_count row),
                           p_limit = limit, p_offset = offset,
                           has_more = (limit = Some (int (length rows)))\<rparr>,
                        search_criteria =
                          \<lparr>sc_name = or_null name, sc_party = or_null party,
                           sc_branch = or_null branch, sc_state = or_null state\<rparr>\<rparr>\<rparr>,
                    log)))"

section \<open>The router (routes/representatives.js)\<close>

text \<open>
  A request to the router: the path below the mount point, the parsed query string and
  the client address. All three routes are GET routes; each path pattern is matched as
  Express compiles it (the whole path, an optional trailing slash, letters of a literal
  segment without regard to case). Path parameters are taken as already decoded.
\<close>

record request =
  path :: string
  query :: query
  ip :: string

datatype route = ZipRoute | DetailRoute string | SearchRoute

definition match_root :: "string \<Rightarrow> route option" where
  "match_root p = (if p = [] \<or> p = ''/'' then Some ZipRoute else None)"

definition strip_trailing_slash :: "string \<Rightarrow> string" where
  "strip_trailing_slash p = (if p \<noteq> [] \<and> last p = CHR ''/'' then butlast p else p)"

definition match_id :: "string \<Rightarrow> route option" where
  "match_id p =
     (case p of
        [] \<Rightarrow> None
      | c # rest \<Rightarrow>
          (let seg = strip_trailing_slash rest
           in if c = CHR ''/'' \<and> seg \<noteq> [] \<and> CHR ''/'' \<notin> set seg
              then Some (DetailRoute seg) else None))"

definition match_search :: "string \<Rightarrow> route option" where
  "match_search p =
     (if map toLowerChar p = ''/search'' \<or> map toLowerChar p = ''/search/''
      then Some SearchRoute else None)"

text \<open>The routes in the order in which the router registers them.\<close>

definition routes :: "(string \<Rightarrow> route option) list" where
  "routes = [match_root, match_id, match_search]"

fun first_match :: "(string \<Rightarrow> route option) list \<Rightarrow> string \<Rightarrow> route option" where
  "first_match [] p = None"
| "first_match (m # ms) p = (case m p of Some r \<Rightarrow> Some r | None \<Rightarrow> first_match ms p)"

text \<open>
  The router on one GET request at time \<open>now\<close>: the rate limiter, then the first route
  whose pattern matches the path. No handler calls \<^verbatim>\<open>next()\<close>, so later routes are not
  tried; a path that matches no route falls through to the application's 404 handler.
\<close>

definition router ::
  "database \<Rightarrow> int \<Rightarrow> request \<Rightarrow> rateLimitStore \<Rightarrow> (response \<times> sql list) \<times> rateLimitStore" where
  "router db now req store =
     (case rateLimit router_options now (ip req) store of
        (Some b, store') \<Rightarrow> ((\<lparr>status = 429, body = RateLimitBody b\<rparr>, []), store')
      | (None, store') \<Rightarrow>
          ((case first_match routes (path req) of
              None \<Rightarrow> (\<lparr>status = 404, body = RouteNotFoundBody\<rparr>, [])
            | Some ZipRoute \<Rightarrow> zip_route db (query req)
            | Some (DetailRoute ident) \<Rightarrow> detail_handler db ident
            | Some SearchRoute \<Rightarrow> search_handler db (query req)),
           store'))"

section \<open>The sample data of database/schema.sql\<close>

definition sample_geography :: "int \<Rightarrow> string \<Rightarrow> string \<Rightarrow> string \<Rightarrow> string \<Rightarrow> string \<Rightarrow> string \<Rightarrow> geography" where
  "sample_geography i z c s sn co cd =
     \<lparr>g_id = i, g_zip_code = z, g_city = Some c, g_state = s, g_state_name = Some sn,
      g_county = Some co, g_congressional_district = Some cd,
      g_latitude = None, g_longitude = None\<rparr>"

definition sample_representative ::
  "int \<Rightarrow> string \<Rightarrow> string \<Rightarrow> string \<Rightarrow> branch \<Rightarrow> string \<Rightarrow> string \<Rightarrow> bool \<Rightarrow> representative" where
  "sample_representative i n t p b ot w act =
     \<lparr>r_id = i, r_name = n, r_title = t, r_party = Some p, r_branch = b,
      r_office_type = Some ot, r_phone = None, r_email = None, r_website = Some w,
      r_photo_url = None, r_address_line1 = None, r_address_line2 = None,
      r_address_city = None, r_address_state = None, r_address_zip = None,
      r_term_start = None, r_term_end = None, r_is_active = Some act\<rparr>"

definition sample_reps :: "representative list" where
  "sample_reps =
     [sample_representative 1 ''Grace Meng'' ''U.S. House Rep, NY-6'' ''Democratic'' Federal
        ''House Representative'' ''https://meng.house.gov'' True,
      sample_representative 2 ''Chuck Schumer'' ''U.S. Senator, NY'' ''Democratic'' Federal
        ''Senator'' ''https://www.schumer.senate.gov'' True,
      sample_representative 3 ''Kirsten Gillibrand'' ''U.S. Senator, NY'' ''Democratic'' Federal
        ''Senator'' ''https://www.gillibrand.senate.gov'' True,
      sample_representative 4 ''Kathy Hochul'' ''Governor, New York'' ''Democratic'' State
        ''Governor'' ''https://www.governor.ny.gov'' True]"

definition sample_db :: database where
  "sample_db =
     \<lparr>geography =
        [sample_geography 1 ''11354'' ''Flushing'' ''NY'' ''New York'' ''Queens'' ''06'',
         sample_geography 2 ''20301'' ''Washington'' ''DC'' ''District of Columbia''
           ''District of Columbia'' ''00'',
         sample_geography 3 ''90210'' ''Beverly Hills'' ''CA'' ''California'' ''Los Angeles'' ''30''],
      representatives = sample_reps,
      rep_geography_maps =
        [\<lparr>m_id = 1, m_representative_id = 1, m_geography_id = 1, m_jurisdiction_level = Federal\<rparr>,
         \<lparr>m_id = 2, m_representative_id = 2, m_geography_id = 1, m_jurisdiction_level = Federal\<rparr>,
         \<lparr>m_id = 3, m_representative_id = 3, m_geography_id = 1, m_jurisdiction_level = Federal\<rparr>,
         \<lparr>m_id = 4, m_representative_id = 4, m_geography_id = 1, m_jurisdiction_level = State\<rparr>],
      available = True,
      collation_key = (\<lambda>s. s)\<rparr>"

text \<open>
  A second data set: the sample data with a council member whose term has ended
  (\<^verbatim>\<open>is_active = false\<close>) mapped to ZIP 11354.
\<close>

definition former_db :: database where
  "former_db =
     sample_db
       \<lparr>representatives :=
          sample_reps @
          [sample_representative 5 ''Peter Koo'' ''Council Member, District 20'' ''Democratic''
             Local ''City Council'' ''https://council.nyc.gov'' False],
        rep_geography_maps :=
          rep_geography_maps sample_db @
          [\<lparr>m_id = 5, m_representative_id = 5, m_geography_id = 1,
            m_jurisdiction_level = Local\<rparr>]\<rparr>"

text \<open>
  A third data set: the sample data with a second New York ZIP code, which the senator
  Chuck Schumer serves as well.
\<close>

definition two_zip_db :: database where
  "two_zip_db =
     sample_db
       \<lparr>geography :=
          geography sample_db @
          [sample_geography 4 ''10001'' ''New York'' ''NY'' ''New York'' ''New York'' ''12''],
        rep_geography_maps :=
          rep_geography_maps sample_db @
          [\<lparr>m_id = 5, m_representative_id = 2, m_geography_id = 4,
            m_jurisdiction_level = Federal\<rparr>]\<rparr>"

text \<open>
  A fourth data set: one ZIP code with two federal representatives, in a database whose
  collation compares letters without regard to case, as the first comparison level of the
  \<^verbatim>\<open>en_US\<close> locale does.
\<close>

definition locale_db :: database where
  "locale_db =
     \<lparr>geography =
        [sample_geography 1 ''94520'' ''Concord'' ''CA'' ''California'' ''Contra Costa'' ''10''],
      representatives =
        [sample_representative 1 ''Mark DeSaulnier'' ''U.S. House Rep, CA-10'' ''Democratic''
           Federal ''House Representative'' ''https://desaulnier.house.gov'' True,
         sample_representative 2 ''Mark Dean'' ''U.S. Senator, CA'' ''Democratic'' Federal
           ''Senator'' ''https://www.senate.gov'' True],
      rep_geography_maps =
        [\<lparr>m_id = 1, m_representative_id = 1, m_geography_id = 1, m_jurisdiction_level = Federal\<rparr>,
         \<lparr>m_id = 2, m_representative_id = 2, m_geography_id = 1, m_jurisdiction_level = Federal\<rparr>],
      available = True,
      collation_key = map toLowerChar\<rparr>"

section \<open>Reading a response\<close>

text \<open>The lists of representatives a response of the ZIP lookup carries.\<close>

definition returned_lists :: "response \<Rightarrow> representative_view list list" where
  "returned_lists res =
     (case body res of
        ZipBody z \<Rightarrow> [z_all z, by_branch_federal z, by_branch_state z, by_branch_local z]
      | _ \<Rightarrow> [])"

section \<open>Rate limiter: properties\<close>

lemma rateLimit_reject_iff:
  "fst (rateLimit options now k s) \<noteq> None \<longleftrightarrow>
     maxRequests options \<le> length (filter (\<lambda>t. now - windowMs options < t) (stored s k))"
  by (simp add: rateLimit_def stored_def Let_def)

lemma rateLimit_accept_store:
  "rateLimit options now k s = (None, s') \<Longrightarrow>
     stored s' k = filter (\<lambda>t. now - windowMs options < t) (stored s k) @ [now]"
  by (auto simp: rateLimit_def stored_def Let_def split: if_splits)

lemma filter_window_mono:
  fixes now t w :: int
  assumes "t \<le> now"
  shows "filter (\<lambda>x. now - w < x) (filter (\<lambda>x. t - w < x) xs) = filter (\<lambda>x. now - w < x) xs"
proof -
  have "\<And>x. now - w < x \<Longrightarrow> t - w < x" using assms by linarith
  then show ?thesis by (induction xs) auto
qed

lemma accepted_calls_window:
  assumes "accepted_calls options ts k s = Some s'" and "\<forall>t\<in>set ts. t \<le> now"
  shows "filter (\<lambda>x. now - windowMs options < x) (stored s' k) =
         filter (\<lambda>x. now - windowMs options < x) (stored s k) @
         filter (\<lambda>x. now - windowMs options < x) ts"
  using assms
proof (induction ts arbitrary: s)
  case Nil
  then show ?case by simp
next
  case (Cons t ts)
  from Cons.prems(1) obtain s1 where step: "rateLimit options t k s = (None, s1)"
    and rest: "accepted_calls options ts k s1 = Some s'"
    by (auto split: prod.splits option.splits)
  have le: "t \<le> now" and les: "\<forall>t\<in>set ts. t \<le> now" using Cons.prems(2) by auto
  have "filter (\<lambda>x. now - windowMs options < x) (stored s1 k) =
        filter (\<lambda>x. now - windowMs options < x) (stored s k) @
        filter (\<lambda>x. now - windowMs options < x) [t]"
    using rateLimit_accept_store [OF step] filter_window_mono [OF le] by simp
  with Cons.IH [OF rest les] show ?case by simp
qed

lemma accepted_calls_bound:
  assumes "accepted_calls options ts k s = Some s'" and "\<forall>t\<in>set ts. t \<le> now"
    and "\<forall>t\<in>set (stored s k). t \<le> now"
  shows "\<forall>t\<in>set (stored s' k). t \<le> now"
  using assms
proof (induction ts arbitrary: s)
  case Nil
  then show ?case by simp
next
  case (Cons t ts)
  from Cons.prems(1) obtain s1 where step: "rateLimit options t k s = (None, s1)"
    and rest: "accepted_calls options ts k s1 = Some s'"
    by (auto split: prod.splits option.splits)
  have "\<forall>x\<in>set (stored s1 k). x \<le> now"
    using rateLimit_accept_store [OF step] Cons.prems(2,3) by auto
  with Cons.IH [OF rest] Cons.prems(2) show ?case by simp
qed

lemma accepted_calls_fresh:
  "length (stored s k) + length ts \<le> maxRequests options \<Longrightarrow>
     \<exists>s'. accepted_calls options ts k s = Some s'"
proof (induction ts arbitrary: s)
  case Nil
  then show ?case by simp
next
  case (Cons t ts)
  let ?valid = "filter (\<lambda>x. t - windowMs options < x) (stored s k)"
  have vl: "length ?valid \<le> length (stored s k)" by simp
  moreover have "length (stored s k) < maxRequests options" using Cons.prems by simp
  ultimately have lt: "length ?valid < maxRequests options" by (rule le_less_trans)
  then have step: "rateLimit options t k s = (None, s(k \<mapsto> ?valid @ [t]))"
    by (simp add: rateLimit_def stored_def Let_def)
  have "stored (s(k \<mapsto> ?valid @ [t])) k = ?valid @ [t]" by (simp add: stored_def)
  then have "length (stored (s(k \<mapsto> ?valid @ [t])) k) + length ts \<le> maxRequests options"
    using vl Cons.prems by (simp del: length_filter_le)
  from Cons.IH [OF this] obtain s' where
    "accepted_calls options ts k (s(k \<mapsto> ?valid @ [t])) = Some s'" by blast
  then have "accepted_calls options (t # ts) k s = Some s'"
    by (simp only: accepted_calls.simps step prod.case option.case)
  then show ?case by blast
qed

lemma router_options_simps:
  "windowMs router_options = 900000" "maxRequests router_options = 100"
  by (simp_all add: router_options_def)

lemma rateLimit_router_options:
  "rateLimit router_options now k s =
     (let validRequests = filter (\<lambda>t. now - 900000 < t) (stored s k)
      in if 100 \<le> length validRequests
         then (Some \<lparr>rl_error = rl_message router_options, retryAfter = 900\<rparr>, s)
         else (None, s(k \<mapsto> validRequests @ [now])))"
  by (simp add: rateLimit_def router_options_simps stored_def Let_def ceil_div_1000_def)

text \<open>
  Claim C6. With the router's options (at most 100 requests per 900000 ms), one call keeps
  of the stored timestamps exactly those newer than \<open>now - 900000\<close>; when at least 100
  remain it answers 429 with \<open>retryAfter = 900\<close> (the window in seconds), otherwise it
  stores the kept timestamps followed by \<open>now\<close> and lets the request through.
  Consequently, when 100 calls of one client were accepted at times inside the window that
  ends at \<open>now\<close>, the next call at \<open>now\<close> is rejected, and a call made once the window
  has passed (\<open>later \<ge> now + 900000\<close>) is accepted again.
\<close>

theorem rate_limiter_window:
  assumes acc: "accepted_calls router_options ts k s = Some s1"
    and len: "length ts = 100"
    and win: "\<forall>t\<in>set ts. now - 900000 < t \<and> t \<le> now"
    and past: "\<forall>t\<in>set (stored s k). t \<le> now"
    and later: "now + 900000 \<le> later"
  shows "(\<forall>n c st. rateLimit router_options n c st =
            (let validRequests = filter (\<lambda>t. n - 900000 < t) (stored st c)
             in if 100 \<le> length validRequests
                then (Some \<lparr>rl_error = rl_message router_options, retryAfter = 900\<rparr>, st)
                else (None, st(c \<mapsto> validRequests @ [n]))))
       \<and> rateLimit router_options now k s1 =
            (Some \<lparr>rl_error = rl_message router_options, retryAfter = 900\<rparr>, s1)
       \<and> rateLimit router_options later k s1 = (None, s1(k \<mapsto> [later]))"
proof (intro conjI allI)
  fix n c st
  show "rateLimit router_options n c st =
            (let validRequests = filter (\<lambda>t. n - 900000 < t) (stored st c)
             in if 100 \<le> length validRequests
                then (Some \<lparr>rl_error = rl_message router_options, retryAfter = 900\<rparr>, st)
                else (None, st(c \<mapsto> validRequests @ [n])))"
    by (simp add: rateLimit_router_options)
next
  have le: "\<forall>t\<in>set ts. t \<le> now" using win by simp
  have all: "filter (\<lambda>x. now - 900000 < x) ts = ts" using win by (simp add: filter_id_conv)
  have "filter (\<lambda>x. now - 900000 < x) (stored s1 k) =
        filter (\<lambda>x. now - 900000 < x) (stored s k) @ ts"
    using accepted_calls_window [OF acc le] all by (simp add: router_options_simps)
  then have "100 \<le> length (filter (\<lambda>x. now - 900000 < x) (stored s1 k))"
    using len by simp
  then show "rateLimit router_options now k s1 =
            (Some \<lparr>rl_error = rl_message router_options, retryAfter = 900\<rparr>, s1)"
    by (simp add: rateLimit_router_options)
next
  have "\<forall>t\<in>set (stored s1 k). t \<le> now"
    using accepted_calls_bound [OF acc _ past] win by simp
  then have "filter (\<lambda>x. later - 900000 < x) (stored s1 k) = []"
    using later by (auto simp: filter_empty_conv)
  then show "rateLimit router_options later k s1 = (None, s1(k \<mapsto> [later]))"
    by (simp add: rateLimit_router_options)
qed

theorem rate_limiter_window_witness:
  "\<exists>s1. accepted_calls router_options (map int [1..<101]) ''10.0.0.7'' Map.empty = Some s1
      \<and> rateLimit router_options 100 ''10.0.0.7'' s1 =
            (Some \<lparr>rl_error = rl_message router_options, retryAfter = 900\<rparr>, s1)
      \<and> rateLimit router_options 900100 ''10.0.0.7'' s1 = (None, s1(''10.0.0.7'' \<mapsto> [900100]))"
proof -
  have "length (stored Map.empty ''10.0.0.7'') + length (map int [1..<101])
          \<le> maxRequests router_options"
    by (simp add: stored_def router_options_def)
  from accepted_calls_fresh [OF this] obtain s1 where
    acc: "accepted_calls router_options (map int [1..<101]) ''10.0.0.7'' Map.empty = Some s1"
    by blast
  have len: "length (map int [1..<101]) = 100" by simp
  have win: "\<forall>t\<in>set (map int [1..<101]). 100 - 900000 < t \<and> t \<le> 100" by auto
  have past: "\<forall>t\<in>set (stored Map.empty ''10.0.0.7''). t \<le> 100" by (simp add: stored_def)
  have later: "(100::int) + 900000 \<le> 900100" by simp
  from rate_limiter_window [OF acc len win past later] acc show ?thesis by blast
qed

text \<open>
  Claim C10. A rejected call leaves the store exactly as it was: the timestamp of the call
  is not stored and the pruned list computed for the check is not written back, so the
  stored timestamps of the client are those of before the call and a later call is
  answered as if the rejected one had never been made.
\<close>

theorem rateLimit_reject_keeps_store:
  assumes "fst (rateLimit options now k s) = Some b"
  shows "snd (rateLimit options now k s) = s
       \<and> stored (snd (rateLimit options now k s)) k = stored s k
       \<and> rateLimit options later k (snd (rateLimit options now k s)) = rateLimit options later k s"
proof -
  have "snd (rateLimit options now k s) = s"
    using assms by (simp add: rateLimit_def Let_def split: if_splits)
  then show ?thesis by simp
qed

theorem rateLimit_reject_keeps_store_witness:
  "fst (rateLimit \<lparr>windowMs = 5, maxRequests = 1, rl_message = ''slow down''\<rparr> 10 ''c''
          [''c'' \<mapsto> [1, 5, 6]]) = Some \<lparr>rl_error = ''slow down'', retryAfter = 1\<rparr>
   \<and> stored (snd (rateLimit \<lparr>windowMs = 5, maxRequests = 1, rl_message = ''slow down''\<rparr> 10 ''c''
          [''c'' \<mapsto> [1, 5, 6]])) ''c'' = [1, 5, 6]"
proof -
  have r: "fst (rateLimit \<lparr>windowMs = 5, maxRequests = 1, rl_message = ''slow down''\<rparr> 10 ''c''
          [''c'' \<mapsto> [1, 5, 6]]) = Some \<lparr>rl_error = ''slow down'', retryAfter = 1\<rparr>"
    by (simp add: rateLimit_def Let_def ceil_div_1000_def)
  from rateLimit_reject_keeps_store [OF r] r show ?thesis by (simp add: stored_def)
qed

section \<open>ZIP lookup: properties\<close>

lemma db_query_Inr: "db_query db r = Inr x \<Longrightarrow> r = Inr x \<and> available db"
  by (simp add: db_query_def split: if_splits)

lemma format_rep_key:
  "(\<lambda>v. (branch_priority (v_branch v), k (v_name v))) \<circ> format_rep =
   (\<lambda>(r, j). (branch_priority (r_branch r), k (r_name r)))"
  by (auto simp: format_rep_def fun_eq_iff)

lemma repQuery_sorted:
  "repQuery db gid ao b = Inr rows \<Longrightarrow>
     sorted (map (\<lambda>v. (branch_priority (v_branch v), collation_key db (v_name v))) (map format_rep rows))"
  unfolding map_map format_rep_key by (auto simp: repQuery_def)

lemma zip_handler_geo_error:
  "db_query db (geoQuery db (q ''zip'')) = Inl e \<Longrightarrow>
     zip_handler db q =
       (internal_error ''Unable to fetch representatives data'', [GeoQuery (q ''zip'')])"
  by (simp add: zip_handler_def Let_def)

lemma zip_handler_not_found:
  "db_query db (geoQuery db (q ''zip'')) = Inr [] \<Longrightarrow>
     zip_handler db q =
       (\<lparr>status = 404,
         body = ErrorBody ''ZIP code not found''
                  (Some (''No data available for ZIP code '' @ template (q ''zip'')))
                  (Some ''Please verify the ZIP code or try a nearby area'')\<rparr>,
        [GeoQuery (q ''zip'')])"
  by (simp add: zip_handler_def Let_def)

lemma zip_handler_rep_error:
  "db_query db (geoQuery db (q ''zip'')) = Inr (geo # gs) \<Longrightarrow>
   db_query db (repQuery db (g_id geo)
      ((case q ''include_inactive'' of None \<Rightarrow> ''false'' | Some v \<Rightarrow> v) \<noteq> ''true'')
      (if truthy (q ''branch'') then q ''branch'' else None)) = Inl e \<Longrightarrow>
     fst (zip_handler db q) = internal_error ''Unable to fetch representatives data''"
  by (simp add: zip_handler_def Let_def)

lemma zip_handler_found:
  "db_query db (geoQuery db (q ''zip'')) = Inr (geo # gs) \<Longrightarrow>
   db_query db (repQuery db (g_id geo)
      ((case q ''include_inactive'' of None \<Rightarrow> ''false'' | Some v \<Rightarrow> v) \<noteq> ''true'')
      (if truthy (q ''branch'') then q ''branch'' else None)) = Inr rows \<Longrightarrow>
     returned_lists (fst (zip_handler db q)) =
       [map format_rep rows,
        filter (\<lambda>rep. v_branch rep = Federal) (map format_rep rows),
        filter (\<lambda>rep. v_branch rep = State) (map format_rep rows),
        filter (\<lambda>rep. v_branch rep = Local) (map format_rep rows)]"
  by (simp add: zip_handler_def Let_def returned_lists_def)

lemma returned_lists_error:
  "returned_lists (internal_error m) = []"
  "returned_lists \<lparr>status = s, body = ErrorBody a b c\<rparr> = []"
  "returned_lists \<lparr>status = s, body = ValidationBody d\<rparr> = []"
  by (simp_all add: returned_lists_def internal_error_def)

lemma zip_handler_lists_sorted:
  assumes "xs \<in> set (returned_lists (fst (zip_handler db q)))"
  shows "sorted (map (\<lambda>v. (branch_priority (v_branch v), collation_key db (v_name v))) xs)"
proof (cases "db_query db (geoQuery db (q ''zip''))")
  case (Inl e)
  from zip_handler_geo_error [of db q] Inl assms show ?thesis
    by (simp add: returned_lists_error)
next
  case (Inr gl)
  show ?thesis
  proof (cases gl)
    case Nil
    with Inr have "db_query db (geoQuery db (q ''zip'')) = Inr []" by simp
    with zip_handler_not_found [of db q] assms show ?thesis
      by (simp add: returned_lists_error)
  next
    case (Cons geo gs)
    with Inr have g: "db_query db (geoQuery db (q ''zip'')) = Inr (geo # gs)" by simp
    let ?r = "db_query db (repQuery db (g_id geo)
      ((case q ''include_inactive'' of None \<Rightarrow> ''false'' | Some v \<Rightarrow> v) \<noteq> ''true'')
      (if truthy (q ''branch'') then q ''branch'' else None))"
    show ?thesis
    proof (cases ?r)
      case (Inl e)
      from zip_handler_rep_error [of db q geo gs] g Inl assms show ?thesis
        by (simp add: returned_lists_error)
    next
      case (Inr rows)
      from db_query_Inr [OF Inr]
      have all: "sorted (map (\<lambda>v. (branch_priority (v_branch v), collation_key db (v_name v))) (map format_rep rows))"
        using repQuery_sorted by blast
      then have "\<And>P. sorted (map (\<lambda>v. (branch_priority (v_branch v), collation_key db (v_name v)))
                       (filter P (map format_rep rows)))"
        by (rule sorted_filter)
      with all zip_handler_found [of db q geo gs rows] g Inr assms
      show ?thesis by auto
    qed
  qed
qed

lemma zip_route_lists:
  "returned_lists (fst (zip_route db q)) = [] \<or>
   (\<exists>q'. returned_lists (fst (zip_route db q)) = returned_lists (fst (zip_handler db q')))"
  by (cases "zipQuery q") (auto simp: zip_route_def createValidator_def returned_lists_error)

text \<open>
  Claim C3, as amended. In every list of representatives that the ZIP lookup returns (the
  list of all of them and the three buckets), for any two positions \<open>i < j\<close>: a federal
  entry is never behind a state or local one, a state entry is never behind a local one,
  and entries of the same branch have names in non-decreasing order of the collation of the
  database. When that collation is C, this is the bytewise lexicographic order of the
  names themselves.
\<close>

theorem zip_lookup_ordering:
  assumes "res = fst (zip_route db q) \<or> res = fst (zip_handler db q)"
    and "xs \<in> set (returned_lists res)"
    and "i < j" and "j < length xs"
  shows "(v_branch (xs ! j) = Federal \<longrightarrow> v_branch (xs ! i) = Federal)
       \<and> (v_branch (xs ! i) = Local \<longrightarrow> v_branch (xs ! j) = Local)
       \<and> (v_branch (xs ! i) = v_branch (xs ! j) \<longrightarrow>
            collation_key db (v_name (xs ! i)) \<le> collation_key db (v_name (xs ! j)))
       \<and> (collation_key db = (\<lambda>s. s) \<longrightarrow> v_branch (xs ! i) = v_branch (xs ! j) \<longrightarrow>
            v_name (xs ! i) \<le> v_name (xs ! j))"
proof -
  let ?key = "\<lambda>v. (branch_priority (v_branch v), collation_key db (v_name v))"
  from assms(1,2) zip_route_lists [of db q]
  obtain q' where "xs \<in> set (returned_lists (fst (zip_handler db q')))" by auto
  then have "sorted (map ?key xs)" by (rule zip_handler_lists_sorted)
  then have "map ?key xs ! i \<le> map ?key xs ! j"
    using assms(3,4) by (simp add: sorted_iff_nth_mono del: nth_map)
  then have le: "?key (xs ! i) \<le> ?key (xs ! j)" using assms(3,4) by simp
  have three: "(v_branch (xs ! j) = Federal \<longrightarrow> v_branch (xs ! i) = Federal)
       \<and> (v_branch (xs ! i) = Local \<longrightarrow> v_branch (xs ! j) = Local)
       \<and> (v_branch (xs ! i) = v_branch (xs ! j) \<longrightarrow>
            collation_key db (v_name (xs ! i)) \<le> collation_key db (v_name (xs ! j)))"
    using le by (cases "v_branch (xs ! i)"; cases "v_branch (xs ! j)"; simp)
  have "collation_key db = (\<lambda>s. s) \<longrightarrow> v_branch (xs ! i) = v_branch (xs ! j) \<longrightarrow>
            v_name (xs ! i) \<le> v_name (xs ! j)"
  proof (intro impI)
    assume c: "collation_key db = (\<lambda>s. s)" and b: "v_branch (xs ! i) = v_branch (xs ! j)"
    from three b have "collation_key db (v_name (xs ! i)) \<le> collation_key db (v_name (xs ! j))"
      by blast
    then show "v_name (xs ! i) \<le> v_name (xs ! j)" by (simp only: c)
  qed
  with three show ?thesis by blast
qed

theorem zip_lookup_ordering_witness:
  "hd (returned_lists (fst (zip_route sample_db [''zip'' \<mapsto> ''11354''])))
     \<in> set (returned_lists (fst (zip_route sample_db [''zip'' \<mapsto> ''11354''])))
   \<and> map v_name (hd (returned_lists (fst (zip_route sample_db [''zip'' \<mapsto> ''11354'']))))
       = [''Chuck Schumer'', ''Grace Meng'', ''Kirsten Gillibrand'', ''Kathy Hochul'']
   \<and> v_branch (hd (returned_lists (fst (zip_route sample_db [''zip'' \<mapsto> ''11354'']))) ! 3) = State
   \<and> v_branch (hd (returned_lists (fst (zip_route sample_db [''zip'' \<mapsto> ''11354'']))) ! 2) \<noteq> Local
   \<and> v_name (hd (returned_lists (fst (zip_route sample_db [''zip'' \<mapsto> ''11354'']))) ! 1)
       \<le> v_name (hd (returned_lists (fst (zip_route sample_db [''zip'' \<mapsto> ''11354'']))) ! 2)"
proof -
  let ?res = "fst (zip_route sample_db [''zip'' \<mapsto> ''11354''])"
  let ?xs = "hd (returned_lists ?res)"
  have names: "map v_name ?xs =
      [''Chuck Schumer'', ''Grace Meng'', ''Kirsten Gillibrand'', ''Kathy Hochul'']"
    by code_simp
  have mem: "?xs \<in> set (returned_lists ?res)" by code_simp
  have b1: "v_branch (?xs ! 1) = Federal" by code_simp
  have b2: "v_branch (?xs ! 2) = Federal" by code_simp
  have b3: "v_branch (?xs ! 3) = State" by code_simp
  have l2: "2 < length ?xs" by code_simp
  have l3: "3 < length ?xs" by code_simp
  have c: "collation_key sample_db = (\<lambda>s. s)" by (simp add: sample_db_def)
  have r: "?res = fst (zip_route sample_db [''zip'' \<mapsto> ''11354'']) \<or>
           ?res = fst (zip_handler sample_db [''zip'' \<mapsto> ''11354''])" by (rule disjI1) (rule refl)
  have i12: "(1::nat) < 2" and i23: "(2::nat) < 3" by simp_all
  from zip_lookup_ordering [OF r mem i12 l2]
  have "collation_key sample_db = (\<lambda>s. s) \<longrightarrow> v_branch (?xs ! 1) = v_branch (?xs ! 2) \<longrightarrow>
          v_name (?xs ! 1) \<le> v_name (?xs ! 2)" by blast
  with c b1 b2 have n12: "v_name (?xs ! 1) \<le> v_name (?xs ! 2)" by (simp only: simp_thms)
  from zip_lookup_ordering [OF r mem i23 l3]
  have "v_branch (?xs ! 2) = Local \<longrightarrow> v_branch (?xs ! 3) = Local" by blast
  with b3 have nl: "v_branch (?xs ! 2) \<noteq> Local" by (metis branch.distinct(5))
  from mem names b3 nl n12 show ?thesis by (intro conjI)
qed

text \<open>
  The claim as it was stated, with names in bytewise lexicographic order, fails where the
  collation is not C: in a database with a case-insensitive collation the lookup returns
  Mark Dean before Mark DeSaulnier, both federal, and \<open>Mark Dean\<close> is not bytewise below
  \<open>Mark DeSaulnier\<close> (\<open>S\<close> is below \<open>a\<close>).
\<close>

theorem zip_lookup_ordering_counterexample:
  "map v_name (hd (returned_lists (fst (zip_route locale_db [''zip'' \<mapsto> ''94520'']))))
       = [''Mark Dean'', ''Mark DeSaulnier'']
   \<and> v_branch (hd (returned_lists (fst (zip_route locale_db [''zip'' \<mapsto> ''94520'']))) ! 0)
       = v_branch (hd (returned_lists (fst (zip_route locale_db [''zip'' \<mapsto> ''94520'']))) ! 1)
   \<and> \<not> v_name (hd (returned_lists (fst (zip_route locale_db [''zip'' \<mapsto> ''94520'']))) ! 0)
       \<le> v_name (hd (returned_lists (fst (zip_route locale_db [''zip'' \<mapsto> ''94520'']))) ! 1)"
  by code_simp

lemma zipQuery_valid:
  "q ''zip'' = Some z \<Longrightarrow> length z = 5 \<Longrightarrow> list_all is_digit z \<Longrightarrow>
     zipQuery q = Inr [''zip'' \<mapsto> z]"
  by (auto simp: zipQuery_def)

lemma zipQuery_invalid:
  "q ''zip'' = Some z \<Longrightarrow> \<not> (length z = 5 \<and> list_all is_digit z) \<Longrightarrow>
     \<exists>d. zipQuery q = Inl d"
  by (auto simp: zipQuery_def)

lemma geoQuery_unknown:
  "available db \<Longrightarrow> z \<notin> g_zip_code ` set (geography db) \<Longrightarrow>
     db_query db (geoQuery db (Some z)) = Inr []"
  by (auto simp: db_query_def geoQuery_def filter_empty_conv)

text \<open>
  Claim C7. When the storage answers and no geography row has the requested ZIP code, the
  handler of the ZIP lookup answers 404 with the "ZIP code not found" body and its
  suggestion to verify the ZIP code, after the one geography query. Through the route
  the status is never 200: a well-formed ZIP code reaches the handler and gets that 404,
  a malformed one is refused by the validator with 422.
\<close>

theorem unknown_zip_not_found:
  assumes "available db" and "q ''zip'' = Some z"
    and "z \<notin> g_zip_code ` set (geography db)"
  shows "zip_handler db q =
           (\<lparr>status = 404,
             body = ErrorBody ''ZIP code not found''
                      (Some (''No data available for ZIP code '' @ z))
                      (Some ''Please verify the ZIP code or try a nearby area'')\<rparr>,
            [GeoQuery (Some z)])
       \<and> status (fst (zip_route db q)) \<noteq> 200
       \<and> (if length z = 5 \<and> list_all is_digit z
          then zip_route db q = zip_handler db q
          else status (fst (zip_route db q)) = 422)"
proof -
  have nf: "db_query db (geoQuery db (Some z)) = Inr []"
    using assms(1,3) by (rule geoQuery_unknown)
  have h: "zip_handler db q =
           (\<lparr>status = 404,
             body = ErrorBody ''ZIP code not found''
                      (Some (''No data available for ZIP code '' @ z))
                      (Some ''Please verify the ZIP code or try a nearby area'')\<rparr>,
            [GeoQuery (Some z)])"
    using zip_handler_not_found [of db q] nf assms(2) by (simp add: template_def)
  have h': "zip_handler db [''zip'' \<mapsto> z] = zip_handler db q"
    using zip_handler_not_found [of db "[''zip'' \<mapsto> z]"] nf h by (simp add: template_def)
  show ?thesis
  proof (cases "length z = 5 \<and> list_all is_digit z")
    case True
    then have "zipQuery q = Inr [''zip'' \<mapsto> z]" using assms(2) by (simp add: zipQuery_valid)
    then have "zip_route db q = zip_handler db q"
      using h' by (simp add: zip_route_def createValidator_def)
    with h show ?thesis unfolding if_P [OF True] by simp
  next
    case False
    from zipQuery_invalid [of q z] assms(2) False obtain d where "zipQuery q = Inl d" by blast
    then have "status (fst (zip_route db q)) = 422"
      by (simp add: zip_route_def createValidator_def)
    with h show ?thesis unfolding if_not_P [OF False] by simp
  qed
qed

theorem unknown_zip_not_found_witness:
  "zip_handler sample_db [''zip'' \<mapsto> ''99999''] =
           (\<lparr>status = 404,
             body = ErrorBody ''ZIP code not found''
                      (Some ''No data available for ZIP code 99999'')
                      (Some ''Please verify the ZIP code or try a nearby area'')\<rparr>,
            [GeoQuery (Some ''99999'')])
   \<and> zip_route sample_db [''zip'' \<mapsto> ''99999''] = zip_handler sample_db [''zip'' \<mapsto> ''99999'']"
proof -
  have a: "available sample_db" by (simp add: sample_db_def)
  have b: "[''zip'' \<mapsto> ''99999''] ''zip'' = Some ''99999''" by simp
  have c: "''99999'' \<notin> g_zip_code ` set (geography sample_db)"
    by (simp add: sample_db_def sample_geography_def)
  have d: "length ''99999'' = 5 \<and> list_all is_digit ''99999''" by (simp add: is_digit_def)
  from unknown_zip_not_found [of sample_db "[''zip'' \<mapsto> ''99999'']" "''99999''"] a b c d
  show ?thesis by simp
qed

section \<open>The router end to end: evaluations\<close>

lemma zipQuery_strips:
  "zipQuery q = Inr q' \<Longrightarrow> q' = [''zip'' \<mapsto> the (q ''zip'')]"
  by (auto simp: zipQuery_def split: option.splits if_splits)

lemma zipQuery_only_zip:
  "zipQuery q = zipQuery (\<lambda>k. if k = ''zip'' then q k else None)"
  by (simp add: zipQuery_def)

lemma zip_route_only_zip:
  "zip_route db q = zip_route db (\<lambda>k. if k = ''zip'' then q k else None)"
  by (simp add: zip_route_def createValidator_def zipQuery_only_zip [of q])

text \<open>
  Claim C1. The claim fails on the code. The validator of the route keeps the key
  \<^verbatim>\<open>zip\<close> only, so the handler never sees \<^verbatim>\<open>branch\<close>: on the sample data the
  request \<^verbatim>\<open>?zip=11354&branch=federal\<close> is answered with all four representatives, the
  state bucket holds Kathy Hochul, the reported filter is \<^verbatim>\<open>all\<close>, and the query sent
  to the database carries no branch condition.
\<close>

theorem branch_filter_stripped:
  "(case fst (router sample_db 0
            \<lparr>path = ''/'', query = [''zip'' \<mapsto> ''11354'', ''branch'' \<mapsto> ''federal''],
             ip = ''127.0.0.1''\<rparr> Map.empty) of
      (res, log) \<Rightarrow>
        status res = 200
      \<and> (case body res of
           ZipBody z \<Rightarrow>
             z_count z = 4
           \<and> map v_name (z_all z) =
               [''Chuck Schumer'', ''Grace Meng'', ''Kirsten Gillibrand'', ''Kathy Hochul'']
           \<and> map v_name (by_branch_state z) = [''Kathy Hochul'']
           \<and> meta_branch_filter z = ''all''
         | _ \<Rightarrow> False)
      \<and> log = [GeoQuery (Some ''11354''), RepQuery 1 True None])"
  by code_simp

text \<open>
  Claim C2. The claim fails on the code, by the same stripping of the query. With an
  inactive council member mapped to ZIP 11354, the request
  \<^verbatim>\<open>?zip=11354&include_inactive=true\<close> through the router is answered with the four
  active representatives only, and the query sent still restricts to active rows; the
  handler alone, given the same query, returns all five.
\<close>

theorem include_inactive_stripped:
  "(case fst (router former_db 0
            \<lparr>path = ''/'', query = [''zip'' \<mapsto> ''11354'', ''include_inactive'' \<mapsto> ''true''],
             ip = ''127.0.0.1''\<rparr> Map.empty) of
      (res, log) \<Rightarrow>
        status res = 200
      \<and> (case body res of
           ZipBody z \<Rightarrow>
             z_count z = 4
           \<and> map v_name (z_all z) =
               [''Chuck Schumer'', ''Grace Meng'', ''Kirsten Gillibrand'', ''Kathy Hochul'']
           \<and> meta_include_inactive z = False
         | _ \<Rightarrow> False)
      \<and> log = [GeoQuery (Some ''11354''), RepQuery 1 True None])
   \<and> (case zip_handler former_db [''zip'' \<mapsto> ''11354'', ''include_inactive'' \<mapsto> ''true''] of
      (res, log) \<Rightarrow>
        (case body res of
           ZipBody z \<Rightarrow>
             map v_name (z_all z) =
               [''Chuck Schumer'', ''Grace Meng'', ''Kirsten Gillibrand'', ''Kathy Hochul'',
                ''Peter Koo'']
         | _ \<Rightarrow> False)
      \<and> log = [GeoQuery (Some ''11354''), RepQuery 1 False None])"
  by code_simp

text \<open>The pattern \<^verbatim>\<open>/:id\<close> is registered before \<^verbatim>\<open>/search\<close> and matches its path.\<close>

lemma first_match_search: "first_match routes ''/search'' = Some (DetailRoute ''search'')"
  by code_simp

text \<open>
  Claim C5. The claim fails on the code. A request for \<^verbatim>\<open>/search\<close> without criteria
  is dispatched to the handler of \<^verbatim>\<open>/:id\<close> with \<open>id = search\<close>: the answer is a 400
  with the body "Invalid representative ID", not the body "Search criteria required"
  that the search handler itself would give. No statement is sent to the database.
\<close>

theorem search_route_shadowed:
  "fst (router sample_db 0 \<lparr>path = ''/search'', query = Map.empty, ip = ''127.0.0.1''\<rparr> Map.empty)
     = (\<lparr>status = 400,
         body = ErrorBody ''Invalid representative ID''
                  (Some ''Representative ID must be a valid number'') None\<rparr>, [])
   \<and> search_handler sample_db Map.empty
     = (\<lparr>status = 400,
         body = ErrorBody ''Search criteria required''
                  (Some ''Please provide at least one search parameter (name, party, branch, or state)'')
                  None\<rparr>, [])"
  by code_simp

text \<open>
  Claim C8. The claim fails on the code. The id \<^verbatim>\<open>2abc\<close> is not a number, but
  \<^verbatim>\<open>parseInt\<close> reads its prefix: the handler queries the database for id 2 and answers
  200 with that representative.
\<close>

theorem detail_non_numeric_queries:
  "(case detail_handler sample_db ''2abc'' of
      (res, log) \<Rightarrow>
        status res = 200
      \<and> (case body res of DetailBody d \<Rightarrow> d_name d = ''Chuck Schumer'' | _ \<Rightarrow> False)
      \<and> log = [DetailQuery 2])"
  by code_simp

text \<open>
  Claim C4. The claim fails on the code. With Chuck Schumer mapped to two ZIP codes, the
  search for \<^verbatim>\<open>name=schumer\<close> returns him once (the rows are deduplicated) but reports
  \<open>total = 2\<close>, the number of joined rows before DISTINCT; and with \<^verbatim>\<open>offset=5\<close> the
  page is empty and the reported total is 0.
\<close>

theorem search_total_counts_join_rows:
  "(case search_handler two_zip_db [''name'' \<mapsto> ''schumer''] of
      (res, log) \<Rightarrow>
        (case body res of
           SearchBody sb \<Rightarrow>
             map s_name (results sb) = [''Chuck Schumer''] \<and> p_total (pagination sb) = 2
         | _ \<Rightarrow> False))
   \<and> (case search_handler two_zip_db [''name'' \<mapsto> ''schumer'', ''offset'' \<mapsto> ''5''] of
      (res, log) \<Rightarrow>
        (case body res of
           SearchBody sb \<Rightarrow> results sb = [] \<and> p_total (pagination sb) = 0
         | _ \<Rightarrow> False))"
  by code_simp

section \<open>Detail and search handlers: properties\<close>

lemma search_handler_no_criteria:
  assumes "\<not> truthy (q ''name'')" "\<not> truthy (q ''party'')" "\<not> truthy (q ''branch'')"
    "\<not> truthy (q ''state'')"
  shows "search_handler db q =
     (\<lparr>status = 400,
         body = ErrorBody ''Search criteria required''
                  (Some ''Please provide at least one search parameter (name, party, branch, or state)'')
                  None\<rparr>, [])"
  using assms by (simp add: search_handler_def Let_def)

lemma detail_handler_nan:
  "parseInt ident = None \<Longrightarrow>
     detail_handler db ident =
       (\<lparr>status = 400,
         body = ErrorBody ''Invalid representative ID''
                  (Some ''Representative ID must be a valid number'') None\<rparr>, [])"
  by (simp add: detail_handler_def)

lemma parseInt_empty: "parseInt [] = None"
  by (simp add: parseInt_def Let_def)

lemma detail_handler_missing:
  assumes "parseInt ident = Some n" and "db_query db (detailQuery db n) = Inr []"
  shows "detail_handler db ident =
       (\<lparr>status = 404,
         body = ErrorBody ''Representative not found''
                  (Some (''No representative found with ID '' @ ident)) None\<rparr>,
        [DetailQuery n])"
proof -
  have "ident \<noteq> []" using assms(1) parseInt_empty by auto
  then show ?thesis using assms by (simp add: detail_handler_def)
qed

lemma router_search_path:
  "path req = ''/search'' \<Longrightarrow>
     status (fst (fst (router db now req store))) = 429 \<or>
     fst (router db now req store) = detail_handler db ''search''"
  by (simp add: router_def first_match_search split: prod.splits option.splits)

lemma parseInt_search: "parseInt ''search'' = None"
  by code_simp

lemma search_handler_error:
  assumes "truthy (q ''name'') \<or> truthy (q ''party'') \<or> truthy (q ''branch'') \<or> truthy (q ''state'')"
    and "db_query db (searchQuery db (or_null (q ''name'')) (or_null (q ''party''))
           (or_null (q ''branch'')) (map_option toUpperCase (or_null (q ''state'')))
           (case q ''limit'' of None \<Rightarrow> Some 20 | Some v \<Rightarrow> parseInt v)
           (case q ''offset'' of None \<Rightarrow> Some 0 | Some v \<Rightarrow> parseInt v)) = Inl e"
  shows "fst (search_handler db q) = internal_error ''Unable to perform search''"
  using assms by (auto simp add: search_handler_def Let_def)

lemma search_handler_ok:
  assumes "truthy (q ''name'') \<or> truthy (q ''party'') \<or> truthy (q ''branch'') \<or> truthy (q ''state'')"
    and "db_query db (searchQuery db (or_null (q ''name'')) (or_null (q ''party''))
           (or_null (q ''branch'')) (map_option toUpperCase (or_null (q ''state'')))
           (case q ''limit'' of None \<Rightarrow> Some 20 | Some v \<Rightarrow> parseInt v)
           (case q ''offset'' of None \<Rightarrow> Some 0 | Some v \<Rightarrow> parseInt v)) = Inr rows"
  shows "fst (search_handler db q) =
     \<lparr>status = 200,
      body = SearchBody
        \<lparr>results = map format_search_row rows,
         pagination =
           \<lparr>p_total = (case rows of [] \<Rightarrow> 0 | row # _ \<Rightarrow> sr_total_count row),
            p_limit = (case q ''limit'' of None \<Rightarrow> Some 20 | Some v \<Rightarrow> parseInt v),
            p_offset = (case q ''offset'' of None \<Rightarrow> Some 0 | Some v \<Rightarrow> parseInt v),
            has_more = ((case q ''limit'' of None \<Rightarrow> Some 20 | Some v \<Rightarrow> parseInt v)
                          = Some (int (length rows)))\<rparr>,
         search_criteria =
           \<lparr>sc_name = or_null (q ''name''), sc_party = or_null (q ''party''),
            sc_branch = or_null (q ''branch''), sc_state = or_null (q ''state'')\<rparr>\<rparr>\<rparr>"
  using assms by (auto simp add: search_handler_def Let_def)

text \<open>
  Claim C9. In every answer of the search handler that carries results, \<open>has_more\<close> is
  true exactly when the number of rows in the page equals the requested limit, that is
  \<^verbatim>\<open>parseInt(limit)\<close> with the default 20, which is also the limit the answer reports.
\<close>

theorem search_has_more:
  assumes "body (fst (search_handler db q)) = SearchBody sb"
  shows "p_limit (pagination sb) = (case q ''limit'' of None \<Rightarrow> Some 20 | Some v \<Rightarrow> parseInt v)
       \<and> (has_more (pagination sb) \<longleftrightarrow>
            p_limit (pagination sb) = Some (int (length (results sb))))"
proof (cases "truthy (q ''name'') \<or> truthy (q ''party'') \<or> truthy (q ''branch'') \<or> truthy (q ''state'')")
  case False
  then have "search_handler db q =
     (\<lparr>status = 400,
         body = ErrorBody ''Search criteria required''
                  (Some ''Please provide at least one search parameter (name, party, branch, or state)'')
                  None\<rparr>, [])"
    using search_handler_no_criteria [of q db] by simp
  with assms show ?thesis by simp
next
  case True
  let ?r = "db_query db (searchQuery db (or_null (q ''name'')) (or_null (q ''party''))
           (or_null (q ''branch'')) (map_option toUpperCase (or_null (q ''state'')))
           (case q ''limit'' of None \<Rightarrow> Some 20 | Some v \<Rightarrow> parseInt v)
           (case q ''offset'' of None \<Rightarrow> Some 0 | Some v \<Rightarrow> parseInt v))"
  show ?thesis
  proof (cases ?r)
    case (Inl e)
    from search_handler_error [of q db e] True Inl assms show ?thesis
      by (simp add: internal_error_def)
  next
    case (Inr rows)
    from search_handler_ok [of q db rows] True Inr assms
    have "sb = \<lparr>results = map format_search_row rows,
         pagination =
           \<lparr>p_total = (case rows of [] \<Rightarrow> 0 | row # _ \<Rightarrow> sr_total_count row),
            p_limit = (case q ''limit'' of None \<Rightarrow> Some 20 | Some v \<Rightarrow> parseInt v),
            p_offset = (case q ''offset'' of None \<Rightarrow> Some 0 | Some v \<Rightarrow> parseInt v),
            has_more = ((case q ''limit'' of None \<Rightarrow> Some 20 | Some v \<Rightarrow> parseInt v)
                          = Some (int (length rows)))\<rparr>,
         search_criteria =
           \<lparr>sc_name = or_null (q ''name''), sc_party = or_null (q ''party''),
            sc_branch = or_null (q ''branch''), sc_state = or_null (q ''state'')\<rparr>\<rparr>"
      by simp
    then show ?thesis by simp
  qed
qed

theorem search_has_more_witness:
  "\<exists>sb. body (fst (search_handler sample_db [''name'' \<mapsto> ''schumer'', ''limit'' \<mapsto> ''1'']))
           = SearchBody sb
        \<and> map s_name (results sb) = [''Chuck Schumer'']
        \<and> p_limit (pagination sb) = Some 1
        \<and> has_more (pagination sb)"
proof -
  let ?q = "[''name'' \<mapsto> ''schumer'', ''limit'' \<mapsto> ''1'']"
  have "(case body (fst (search_handler sample_db ?q)) of
           SearchBody sb \<Rightarrow> map s_name (results sb) = [''Chuck Schumer'']
         | _ \<Rightarrow> False)"
    by code_simp
  then obtain sb where b: "body (fst (search_handler sample_db ?q)) = SearchBody sb"
    and n: "map s_name (results sb) = [''Chuck Schumer'']"
    by (cases "body (fst (search_handler sample_db ?q))") simp_all
  have lim: "(case ?q ''limit'' of None \<Rightarrow> Some 20 | Some v \<Rightarrow> parseInt v) = Some 1"
    by code_simp
  have len: "length (results sb) = 1"
    using arg_cong [OF n, of length] by simp
  from search_has_more [of sample_db ?q sb] b lim len
  have p: "p_limit (pagination sb) = Some 1 \<and> has_more (pagination sb)" by simp
  show ?thesis
    by (rule exI [of _ sb]) (simp only: b n p simp_thms)
qed

section \<open>Search query: properties\<close>

text \<open>
  Every row of a page of the search is the projection of a representative, and carries the
  number of joined rows that passed the WHERE clause as its \<^verbatim>\<open>total_count\<close>; when the ids of
  the representatives table are unique (its primary key), no id occurs twice in a page.
\<close>

lemma search_matches_reps:
  "(r, m, g) \<in> set (search_matches db n p b s) \<Longrightarrow> r \<in> set (representatives db)"
  by (auto simp: search_matches_def)

lemma searchQuery_page:
  assumes "searchQuery db n p b s l f = Inr rows"
  shows "\<exists>l' f'. rows = take l' (drop f'
           (sort_key (\<lambda>row. collation_key db (sr_name row)) (remdups
              (map (\<lambda>(r, m, g). search_select (length (search_matches db n p b s)) r)
                 (search_matches db n p b s)))))"
  using assms
  by (cases l; cases f) (auto simp: searchQuery_def Let_def split: if_splits)

lemma searchQuery_rows:
  assumes "searchQuery db n p b s l f = Inr rows" and "row \<in> set rows"
  shows "\<exists>r\<in>set (representatives db).
           row = search_select (length (search_matches db n p b s)) r"
proof -
  from searchQuery_page [OF assms(1)] obtain l' f' where
    "rows = take l' (drop f'
           (sort_key (\<lambda>row. collation_key db (sr_name row)) (remdups
              (map (\<lambda>(r, m, g). search_select (length (search_matches db n p b s)) r)
                 (search_matches db n p b s)))))" by blast
  with assms(2) have "row \<in> set (map (\<lambda>(r, m, g). search_select (length (search_matches db n p b s)) r)
                 (search_matches db n p b s))"
    using in_set_takeD in_set_dropD by fastforce
  then obtain r m g where "(r, m, g) \<in> set (search_matches db n p b s)"
    and "row = search_select (length (search_matches db n p b s)) r" by auto
  with search_matches_reps show ?thesis by blast
qed

lemma searchQuery_total:
  assumes "searchQuery db n p b s l f = Inr rows" and "row \<in> set rows"
  shows "sr_total_count row = length (search_matches db n p b s)"
  using searchQuery_rows [OF assms] by (auto simp: search_select_def)

lemma searchQuery_distinct:
  assumes "searchQuery db n p b s l f = Inr rows"
    and "distinct (map r_id (representatives db))"
  shows "distinct (map sr_id rows)"
proof -
  let ?sel = "map (\<lambda>(r, m, g). search_select (length (search_matches db n p b s)) r)
                 (search_matches db n p b s)"
  from searchQuery_page [OF assms(1)] obtain l' f' where
    rows: "rows = take l' (drop f' (sort_key (\<lambda>row. collation_key db (sr_name row)) (remdups ?sel)))" by blast
  have inj_r: "inj_on r_id (set (representatives db))"
    using assms(2) by (simp add: distinct_map)
  have "inj_on sr_id (set ?sel)"
  proof (rule inj_onI)
    fix x y assume x: "x \<in> set ?sel" and y: "y \<in> set ?sel" and eq: "sr_id x = sr_id y"
    from x obtain r1 m1 g1 where r1: "(r1, m1, g1) \<in> set (search_matches db n p b s)"
      and x': "x = search_select (length (search_matches db n p b s)) r1" by auto
    from y obtain r2 m2 g2 where r2: "(r2, m2, g2) \<in> set (search_matches db n p b s)"
      and y': "y = search_select (length (search_matches db n p b s)) r2" by auto
    from eq x' y' have "r_id r1 = r_id r2" by (simp add: search_select_def)
    with inj_r search_matches_reps [OF r1] search_matches_reps [OF r2] have "r1 = r2"
      by (auto dest: inj_onD)
    with x' y' show "x = y" by simp
  qed
  then have "distinct (map sr_id (sort_key (\<lambda>row. collation_key db (sr_name row)) (remdups ?sel)))"
    by (simp add: distinct_map)
  then have "distinct (take l' (drop f' (map sr_id (sort_key (\<lambda>row. collation_key db (sr_name row)) (remdups ?sel)))))"
    by (intro distinct_take distinct_drop)
  then show ?thesis by (simp add: rows take_map drop_map)
qed

end
